theory Spec2Isabelle
  imports Complex_Main
begin

section \<open>The retrain signal controller (\<open>training_signal_check\<close>)\<close>

subsection \<open>The numpy arithmetic the controller uses\<close>

text \<open>
  The controller computes on numpy \<open>float64\<close> values. Finite values are modelled by exact
  real numbers; what HOL's total division would hide is written out: numpy divides by
  zero without raising and yields \<open>inf\<close>, \<open>-inf\<close> or \<open>nan\<close>, and every comparison with
  \<open>nan\<close> is false.
\<close>

datatype npfloat = Fin real | PInf | NInf | NaN

definition np_true_divide :: "real \<Rightarrow> real \<Rightarrow> npfloat" where
  "np_true_divide a b =
     (if b \<noteq> 0 then Fin (a / b)
      else if 0 < a then PInf
      else if a < 0 then NInf
      else NaN)"

fun f_ge :: "npfloat \<Rightarrow> real \<Rightarrow> bool" where
  "f_ge (Fin r) c = (c \<le> r)"
| "f_ge PInf c = True"
| "f_ge NInf c = False"
| "f_ge NaN c = False"

fun f_gt :: "npfloat \<Rightarrow> real \<Rightarrow> bool" where
  "f_gt (Fin r) c = (c < r)"
| "f_gt PInf c = True"
| "f_gt NInf c = False"
| "f_gt NaN c = False"

fun f_lt :: "npfloat \<Rightarrow> real \<Rightarrow> bool" where
  "f_lt (Fin r) c = (r < c)"
| "f_lt PInf c = False"
| "f_lt NInf c = True"
| "f_lt NaN c = False"

fun f_le :: "npfloat \<Rightarrow> real \<Rightarrow> bool" where
  "f_le (Fin r) c = (r \<le> c)"
| "f_le PInf c = False"
| "f_le NInf c = True"
| "f_le NaN c = False"

text \<open>
  \<open>np.mean\<close>, \<open>np.std\<close> (population standard deviation) and \<open>np.average\<close> with weights.
  They are applied to the sample window after the push of line 268 only, so to a
  non-empty array, and to the weights of line 277, whose sum is positive.
\<close>

definition np_mean :: "real list \<Rightarrow> real" where
  "np_mean xs = sum_list xs / real (length xs)"

definition np_std :: "real list \<Rightarrow> real" where
  "np_std xs = sqrt (np_mean (map (\<lambda>x. (x - np_mean xs)\<^sup>2) xs))"

definition np_average :: "real list \<Rightarrow> real list \<Rightarrow> real" where
  "np_average vals weights = sum_list (map2 (*) vals weights) / sum_list weights"

text \<open>Lines 246-250.\<close>

definition weighted_avg_and_std :: "real list \<Rightarrow> real list \<Rightarrow> real \<times> real" where
  "weighted_avg_and_std vals weights =
     (let average = np_average vals weights;
          variance = np_average (map (\<lambda>v. (v - average)\<^sup>2) vals) weights
      in (average, sqrt variance))"

text \<open>Line 277: \<open>np.flip(np.true_divide(np.arange(1, time_steps + 1), time_steps))\<close>.\<close>

definition time_weights :: "nat \<Rightarrow> real list" where
  "time_weights time_steps =
     rev (map (\<lambda>k. real k / real time_steps) [1..<time_steps + 1])"

text \<open>Lines 274-275: \<open>vol\<close>, which is only logged.\<close>

definition vol_of :: "nat list \<Rightarrow> npfloat" where
  "vol_of q =
     (let num_clusters = map real q
      in np_true_divide (np_std num_clusters) (np_mean (take 10 num_clusters)))"

text \<open>Lines 274-279: \<open>weighted_vol\<close> of the sample window (most recent sample first).\<close>

definition weighted_vol_of :: "nat list \<Rightarrow> npfloat" where
  "weighted_vol_of q =
     (let num_clusters = map real q;
          time_steps = length num_clusters;
          weights = time_weights time_steps;
          (weighted_mean, weighted_std) = weighted_avg_and_std num_clusters weights
      in np_true_divide weighted_std (np_mean (take 10 num_clusters)))"

subsection \<open>Controller state and one sampling tick\<close>

text \<open>An entry of \<open>normal_periods\<close>, and the payload published on the subject \<open>train\<close>.\<close>

record period =
  start_ts :: int
  end_ts :: int

record train_payload =
  model_to_train :: string
  time_intervals :: "period list"

text \<open>
  The local variables of \<open>training_signal_check\<close> (lines 252-259) together with the
  global deque \<open>num_total_clusters_tracking_queue\<close> (line 32, \<open>maxlen\<close> 50). A timestamp
  is an integer number of nanoseconds; the source marks "no period open" by the
  value \<open>-1.0\<close>, which Python compares equal to the integer \<open>-1\<close>.
\<close>

record controller =
  iteration :: nat
  num_templates_in_last_train :: nat
  train_on_next_chance :: bool
  stable :: bool
  training_start_ts_ns :: int
  very_first_ts_ns :: int
  normal_periods :: "period list"
  num_total_clusters_tracking_queue :: "nat list"

text \<open>
  \<open>time.time_ns()\<close> is read at up to four places of one loop body (lines 295, 298, 312
  and 324). Each reading is an input of the tick; a reading is a natural number, so it
  never equals the marker \<open>-1\<close>.
\<close>

record clock =
  now_295 :: nat
  now_298 :: nat
  now_312 :: nat
  now_324 :: nat

text \<open>Lines 252-259, where \<open>t0\<close> is the reading of line 256.\<close>

definition controller_init :: "nat \<Rightarrow> controller" where
  "controller_init t0 =
     \<lparr> iteration = 0, num_templates_in_last_train = 0, train_on_next_chance = True,
       stable = False, training_start_ts_ns = int t0, very_first_ts_ns = int t0,
       normal_periods = [], num_total_clusters_tracking_queue = [] \<rparr>"

text \<open>\<open>deque.appendleft\<close> on a deque of bounded length: the oldest sample falls out.\<close>

definition appendleft :: "nat \<Rightarrow> 'a \<Rightarrow> 'a list \<Rightarrow> 'a list" where
  "appendleft maxlen x q = take maxlen (x # q)"

text \<open>Lines 287-288.\<close>

definition mark_volatile :: "npfloat \<Rightarrow> controller \<Rightarrow> controller" where
  "mark_volatile weighted_vol s =
     (if f_ge weighted_vol 0.199 then s\<lparr>train_on_next_chance := True\<rparr> else s)"

text \<open>Lines 290-295.\<close>

definition restart_period :: "clock \<Rightarrow> npfloat \<Rightarrow> controller \<Rightarrow> controller" where
  "restart_period clk weighted_vol s =
     (if f_lt weighted_vol 0.199
         \<and> training_start_ts_ns s \<noteq> very_first_ts_ns s
         \<and> train_on_next_chance s
      then s\<lparr>training_start_ts_ns := int (now_295 clk)\<rparr>
      else s)"

text \<open>Lines 297-303.\<close>

definition close_period :: "clock \<Rightarrow> npfloat \<Rightarrow> controller \<Rightarrow> controller" where
  "close_period clk weighted_vol s =
     (if f_gt weighted_vol 0.155 \<and> \<not> train_on_next_chance s \<and> stable s
      then s\<lparr>normal_periods := normal_periods s @
                 [\<lparr>start_ts = training_start_ts_ns s, end_ts = int (now_298 clk)\<rparr>],
             stable := False,
             training_start_ts_ns := - 1\<rparr>
      else s)"

text \<open>Lines 305-324; the second component is the payload published on \<open>train\<close>, if any.\<close>

definition send_train_signal ::
  "clock \<Rightarrow> nat \<Rightarrow> npfloat \<Rightarrow> controller \<Rightarrow> controller \<times> train_payload option" where
  "send_train_signal clk num_drain_templates weighted_vol s =
     (if f_le weighted_vol 0.15
         \<and> (train_on_next_chance s
              \<or> num_drain_templates > 2 * num_templates_in_last_train s)
      then
        (let s1 = s\<lparr>num_templates_in_last_train := num_drain_templates\<rparr>;
             s2 = (if training_start_ts_ns s1 \<noteq> - 1
                   then s1\<lparr>normal_periods := normal_periods s1 @
                            [\<lparr>start_ts = training_start_ts_ns s1,
                              end_ts = int (now_312 clk)\<rparr>]\<rparr>
                   else s1);
             payload = \<lparr>model_to_train = ''nulog'', time_intervals = normal_periods s2\<rparr>
         in (s2\<lparr>train_on_next_chance := False, stable := True,
                 training_start_ts_ns := int (now_324 clk)\<rparr>,
             Some payload))
      else (s, None))"

text \<open>Lines 286-324: the four rules, in the order of the source.\<close>

definition decide ::
  "clock \<Rightarrow> nat \<Rightarrow> npfloat \<Rightarrow> controller \<Rightarrow> controller \<times> train_payload option" where
  "decide clk num_drain_templates weighted_vol s =
     send_train_signal clk num_drain_templates weighted_vol
       (close_period clk weighted_vol
         (restart_period clk weighted_vol
           (mark_volatile weighted_vol s)))"

text \<open>
  Lines 262-324: one pass of the loop body after the sleep, for the live cluster count
  \<open>num_drain_templates\<close> read at line 263.
\<close>

definition training_signal_check_tick ::
  "clock \<Rightarrow> nat \<Rightarrow> controller \<Rightarrow> controller \<times> train_payload option" where
  "training_signal_check_tick clk num_drain_templates s =
     (if length (num_total_clusters_tracking_queue s) = 0 \<and> num_drain_templates = 0
      then (s, None)
      else
        (let s1 = s\<lparr>iteration := iteration s + 1,
                    num_total_clusters_tracking_queue :=
                      appendleft 50 num_drain_templates (num_total_clusters_tracking_queue s)\<rparr>;
             weighted_vol = weighted_vol_of (num_total_clusters_tracking_queue s1)
         in if length (num_total_clusters_tracking_queue s1) > 3
            then decide clk num_drain_templates weighted_vol s1
            else (s1, None)))"

text \<open>The loop over a finite run of ticks, keeping what each tick published.\<close>

fun training_signal_check_run ::
  "controller \<Rightarrow> (clock \<times> nat) list \<Rightarrow> controller \<times> train_payload option list" where
  "training_signal_check_run s [] = (s, [])"
| "training_signal_check_run s ((clk, n) # ticks) =
     (let (s1, out) = training_signal_check_tick clk n s;
          (s2, outs) = training_signal_check_run s1 ticks
      in (s2, out # outs))"

section \<open>The keyword pattern\<close>

subsection \<open>Building the pattern at start-up\<close>

text \<open>
  \<open>str.split(",")\<close>: the pieces between the commas, empty pieces included; the empty
  string splits into one empty piece.
\<close>

fun split_on :: "char \<Rightarrow> string \<Rightarrow> string list" where
  "split_on sep [] = [[]]"
| "split_on sep (c # cs) =
     (if c = sep then [] # split_on sep cs
      else (case split_on sep cs of
              [] \<Rightarrow> [[c]]
            | w # ws \<Rightarrow> (c # w) # ws))"

text \<open>Lines 334-340: the body of the loop over the keywords.\<close>

definition add_fail_keyword :: "string \<Rightarrow> string \<Rightarrow> string" where
  "add_fail_keyword fail_keywords_str fail_keyword =
     (if fail_keyword = [] then fail_keywords_str
      else if length fail_keywords_str > 0
      then fail_keywords_str @ ''|('' @ fail_keyword @ '')''
      else fail_keywords_str @ ''('' @ fail_keyword @ '')'')"

text \<open>Lines 333-340, for the value of the environment variable \<open>FAIL_KEYWORDS\<close>.\<close>

definition main_fail_keywords_str :: "string \<Rightarrow> string" where
  "main_fail_keywords_str env = foldl add_fail_keyword [] (split_on CHR '','' env)"

text \<open>Lines 102-103: an empty pattern is replaced before it is used.\<close>

definition effective_pattern :: "string \<Rightarrow> string" where
  "effective_pattern fail_keywords_str =
     (if fail_keywords_str = [] then ''a^'' else fail_keywords_str)"

subsection \<open>What \<open>str.contains(pat, regex=True)\<close> computes\<close>

text \<open>
  pandas compiles the pattern with Python's \<open>re\<close> and keeps the rows where \<open>re.search\<close>
  finds a match. The library is not part of the repository; it is modelled on the
  fragment of the pattern language that the start-up code itself produces: literal
  characters, groups \<open>(...)\<close>, alternation \<open>|\<close> and the anchor \<open>^\<close>, which without the
  multi-line flag matches at position 0 only. A pattern with unbalanced parentheses is
  invalid (\<open>re.error\<close>); a pattern that uses any other special character is outside the
  fragment and the model gives no answer for it.
\<close>

datatype rx = Lit char | Bol | Eps | Cat rx rx | Alt rx rx

datatype compiled = Compiled rx | Invalid | Unsupported

fun mk_seq :: "rx list \<Rightarrow> rx" where
  "mk_seq [] = Eps"
| "mk_seq [a] = a"
| "mk_seq (a # b # bs) = Cat a (mk_seq (b # bs))"

fun mk_alt :: "rx list \<Rightarrow> rx" where
  "mk_alt [] = Eps"
| "mk_alt [a] = a"
| "mk_alt (a # b # bs) = Alt a (mk_alt (b # bs))"

text \<open>
  The parser reads the pattern from left to right. A level holds the finished branches
  of the group being read and the items of its current branch; the stack holds the
  levels of the enclosing groups.
\<close>

type_synonym level = "rx list \<times> rx list"

definition close_level :: "level \<Rightarrow> rx" where
  "close_level l = mk_alt (fst l @ [mk_seq (snd l)])"

definition other_special :: "char list" where
  "other_special =
     [CHR ''.'', CHR ''$'', CHR ''*'', CHR ''+'', CHR ''?'', CHR ''['', CHR '']'',
      CHR ''{'', CHR ''}'', CHR 0x5C]"

fun parse_chars :: "level \<Rightarrow> level list \<Rightarrow> string \<Rightarrow> compiled" where
  "parse_chars cur stack [] = (if stack = [] then Compiled (close_level cur) else Invalid)"
| "parse_chars cur stack (c # cs) =
     (if c = CHR ''('' then parse_chars ([], []) (cur # stack) cs
      else if c = CHR '')'' then
        (case stack of
           [] \<Rightarrow> Invalid
         | outer # rest \<Rightarrow> parse_chars (fst outer, snd outer @ [close_level cur]) rest cs)
      else if c = CHR ''|'' then parse_chars (fst cur @ [mk_seq (snd cur)], []) stack cs
      else if c = CHR ''^'' then parse_chars (fst cur, snd cur @ [Bol]) stack cs
      else if c \<in> set other_special then Unsupported
      else parse_chars (fst cur, snd cur @ [Lit c]) stack cs)"

definition re_compile :: "string \<Rightarrow> compiled" where
  "re_compile pat = parse_chars ([], []) [] pat"

text \<open>The positions at which a match of \<open>r\<close> that starts at position \<open>i\<close> of \<open>t\<close> can end.\<close>

fun rx_ends :: "rx \<Rightarrow> string \<Rightarrow> nat \<Rightarrow> nat list" where
  "rx_ends (Lit c) t i = (if i < length t \<and> t ! i = c then [Suc i] else [])"
| "rx_ends Bol t i = (if i = 0 then [i] else [])"
| "rx_ends Eps t i = [i]"
| "rx_ends (Cat a b) t i = concat (map (rx_ends b t) (rx_ends a t i))"
| "rx_ends (Alt a b) t i = rx_ends a t i @ rx_ends b t i"

text \<open>\<open>re.search\<close>: a match may start at any position, the end of the text included.\<close>

definition re_search :: "rx \<Rightarrow> string \<Rightarrow> bool" where
  "re_search r t = list_ex (\<lambda>i. rx_ends r t i \<noteq> []) [0..<Suc (length t)]"

section \<open>The scoring stage (\<open>train_and_inference\<close>)\<close>

datatype py_error = KeyError | ReError | PatternOutsideFragment

text \<open>A row of the incoming table: the columns \<open>_id\<close> and \<open>masked_log\<close>.\<close>

record log_row =
  row_id :: string
  masked_log :: string

text \<open>What \<open>template_miner.add_log_message\<close> returns, as far as the stage reads it.\<close>

record miner_result =
  change_type :: string
  cluster_id :: int
  template_mined :: string
  cluster_size :: int

text \<open>
  A row of \<open>inferencing_results\<close> (lines 71-80). The column \<open>template_or_change_type\<close> is
  left out: it is never read.
\<close>

record inference_row =
  doc_id :: string
  update_type :: string
  matched_template :: string
  drain_matched_template_id :: int
  drain_matched_template_support :: int

text \<open>A row of the published table (lines 110-121): \<open>_id\<close> and the three result columns.\<close>

record prediction_row =
  pred_id :: string
  drain_prediction :: int
  pred_template_id :: int
  pred_template_support :: int

text \<open>
  A table on the persistence queue: its rows and the constant columns that
  \<open>update_es_logs\<close> adds to it (\<open>None\<close>: the table has no such column).
\<close>

record es_frame =
  frame_rows :: "prediction_row list"
  op_type_col :: "string option"
  index_col :: "string option"
  script_col :: "string option"

text \<open>A call of \<open>async_streaming_bulk\<close>: the client it is given and the documents.\<close>

datatype bulk_call =
    ScriptedUpdate nat "string list"
  | FieldUpdate nat "(string \<times> int \<times> int) list"

text \<open>
  The state the stages share: the two queues of \<open>__main__\<close> (both made without a
  \<open>maxsize\<close>, so without a bound), the messages published through \<open>nw\<close> with their
  subject, the template miner, the three tracking deques (\<open>maxlen\<close> 50), the index
  client \<open>es\<close> of \<open>update_es_logs\<close> (clients are numbered in the order in which
  \<open>setup_es_connection\<close> makes them) and the bulk calls made so far.
\<close>

record 'm world =
  incoming_logs_to_train_queue :: "log_row list list"
  logs_to_update_in_elasticsearch :: "es_frame list"
  published :: "(string \<times> prediction_row list) list"
  template_miner :: 'm
  num_clusters_created_tracking_queue :: "nat list"
  num_templates_changed_tracking_queue :: "nat list"
  num_no_templates_change_tracking_queue :: "nat list"
  es :: nat
  bulk_calls :: "bulk_call list"

text \<open>
  \<open>await queue.put(x)\<close> on a queue without bound: the item is added at the end and the
  caller is never suspended.
\<close>

definition await_put :: "'a list \<Rightarrow> 'a \<Rightarrow> 'a list" where
  "await_put q x = q @ [x]"

text \<open>Lines 38-42 and 44-47, for a decoded payload.\<close>

definition subscribe_handler :: "log_row list \<Rightarrow> 'm world \<Rightarrow> 'm world" where
  "subscribe_handler payload w =
     w\<lparr>incoming_logs_to_train_queue := await_put (incoming_logs_to_train_queue w) payload\<rparr>"

definition anomalies_subscription_handler :: "prediction_row list \<Rightarrow> 'm world \<Rightarrow> 'm world" where
  "anomalies_subscription_handler payload w =
     w\<lparr>logs_to_update_in_elasticsearch :=
         await_put (logs_to_update_in_elasticsearch w)
           \<lparr>frame_rows = payload, op_type_col = None, index_col = None, script_col = None\<rparr>\<rparr>"

text \<open>
  Lines 66-81: the loop over the rows. The miner is a parameter: a function from its
  state and a message to the result and the new state.
\<close>

fun infer_rows ::
  "('m \<Rightarrow> string \<Rightarrow> miner_result \<times> 'm) \<Rightarrow> 'm \<Rightarrow> log_row list \<Rightarrow> inference_row list \<times> 'm" where
  "infer_rows add_log_message m [] = ([], m)"
| "infer_rows add_log_message m (row # later) =
     (if masked_log row \<noteq> [] then
        (let (result, m1) = add_log_message m (masked_log row);
             d = \<lparr>doc_id = row_id row,
                  update_type = change_type result,
                  matched_template = template_mined result,
                  drain_matched_template_id = cluster_id result,
                  drain_matched_template_support = cluster_size result\<rparr>;
             (ds, m2) = infer_rows add_log_message m1 later
         in (d # ds, m2))
      else infer_rows add_log_message m later)"

text \<open>Lines 85-98: \<open>value_counts\<close> and the three tracking deques.\<close>

definition track :: "string \<Rightarrow> inference_row list \<Rightarrow> nat list \<Rightarrow> nat list" where
  "track kind df q =
     (let n = count_list (map update_type df) kind
      in if 0 < n then appendleft 50 n q else q)"

text \<open>Lines 101-109, for one row and the compiled pattern.\<close>

definition predict_row :: "rx \<Rightarrow> inference_row \<Rightarrow> int" where
  "predict_row r d =
     (if (drain_matched_template_support d \<le> 10 \<and> drain_matched_template_support d \<noteq> 10)
         \<or> re_search r (matched_template d)
      then 1 else 0)"

text \<open>Lines 110-119: the published columns of a row.\<close>

definition prediction_of :: "rx \<Rightarrow> inference_row \<Rightarrow> prediction_row" where
  "prediction_of r d =
     \<lparr>pred_id = doc_id d,
      drain_prediction = predict_row r d,
      pred_template_id = drain_matched_template_id d,
      pred_template_support = drain_matched_template_support d\<rparr>"

text \<open>
  Lines 66-122: one pass of the loop body for the table \<open>payload_data_df\<close> taken from the
  queue. An exception ends the coroutine; the result then holds the exception and the
  state at that moment. An empty \<open>DataFrame\<close> has no columns, so line 85 raises
  \<open>KeyError\<close> on it.
\<close>

definition train_and_inference_iter ::
  "('m \<Rightarrow> string \<Rightarrow> miner_result \<times> 'm) \<Rightarrow> string \<Rightarrow> log_row list \<Rightarrow> 'm world
     \<Rightarrow> (py_error \<times> 'm world) + 'm world" where
  "train_and_inference_iter add_log_message fail_keywords_str payload_data_df w =
     (let (inferencing_results, m1) =
            infer_rows add_log_message (template_miner w) payload_data_df;
          w1 = w\<lparr>template_miner := m1\<rparr>
      in if inferencing_results = [] then Inl (KeyError, w1)
         else
           (let w2 = w1\<lparr>num_clusters_created_tracking_queue :=
                          track ''cluster_created'' inferencing_results
                            (num_clusters_created_tracking_queue w1),
                        num_templates_changed_tracking_queue :=
                          track ''cluster_template_changed'' inferencing_results
                            (num_templates_changed_tracking_queue w1),
                        num_no_templates_change_tracking_queue :=
                          track ''none'' inferencing_results
                            (num_no_templates_change_tracking_queue w1)\<rparr>
            in case re_compile (effective_pattern fail_keywords_str) of
                 Invalid \<Rightarrow> Inl (ReError, w2)
               | Unsupported \<Rightarrow> Inl (PatternOutsideFragment, w2)
               | Compiled r \<Rightarrow>
                   Inr (w2\<lparr>published := published w2 @
                             [(''anomalies'', map (prediction_of r) inferencing_results)]\<rparr>)))"

text \<open>
  Lines 64-65: \<open>await queue.get()\<close> suspends the stage while the queue is empty
  (\<open>None\<close>); otherwise the oldest table is taken and processed.
\<close>

definition train_and_inference_step ::
  "('m \<Rightarrow> string \<Rightarrow> miner_result \<times> 'm) \<Rightarrow> string \<Rightarrow> 'm world
     \<Rightarrow> ((py_error \<times> 'm world) + 'm world) option" where
  "train_and_inference_step add_log_message fail_keywords_str w =
     (case incoming_logs_to_train_queue w of
        [] \<Rightarrow> None
      | payload_data_df # rest \<Rightarrow>
          Some (train_and_inference_iter add_log_message fail_keywords_str payload_data_df
                  (w\<lparr>incoming_logs_to_train_queue := rest\<rparr>)))"

section \<open>The persistence stage (\<open>update_es_logs\<close>)\<close>

text \<open>
  How a call of \<open>async_streaming_bulk\<close> ends is an input of the model: it succeeds, or
  it raises one of the exceptions that the \<open>except\<close> clauses name. \<open>ConnectionTimeout\<close> is a
  subclass of \<open>TransportError\<close> and is caught by the clause that comes first;
  \<open>TransportError\<close> below stands for the remaining instances, with their \<open>status_code\<close>
  (\<open>"N/A"\<close> when the error has no HTTP status). With the default \<open>raise_on_error\<close> the
  helper raises \<open>BulkIndexError\<close> instead of yielding a failed item, so the branch
  \<open>if not ok\<close> is not entered.
\<close>

datatype status_code = NA | Status int

datatype es_exn = BulkIndexError | ConnectionTimeout | TimeoutError | TransportError status_code

datatype bulk_outcome = Succeeds | Raises es_exn

text \<open>
  Lines 204 and 237 call \<open>queue.put(...)\<close> without \<open>await\<close>. \<open>asyncio.Queue.put\<close> is a
  coroutine function: the call builds a coroutine object and returns it, and since the
  object is neither awaited nor scheduled, the body of \<open>put\<close> never runs. The queue
  stays as it is.
\<close>

definition put_not_awaited :: "'a list \<Rightarrow> 'a \<Rightarrow> 'a list" where
  "put_not_awaited q x = q"

text \<open>Lines 125-144: a new client.\<close>

definition setup_es_connection :: "'m world \<Rightarrow> 'm world" where
  "setup_es_connection w = w\<lparr>es := Suc (es w)\<rparr>"

text \<open>Lines 179-183: the script; \<open>CHR 0x27\<close> is the single quote.\<close>

definition script :: string where
  "script =
     ''ctx._source.anomaly_predicted_count += 1; ctx._source.drain_anomaly = true; '' @
     ''ctx._source.anomaly_level = ctx._source.anomaly_predicted_count == 1 ? '' @
     [CHR 0x27] @ ''Suspicious'' @ [CHR 0x27] @
     '' : ctx._source.anomaly_predicted_count == 2 ? '' @
     [CHR 0x27] @ ''Anomaly'' @ [CHR 0x27] @ '' : '' @
     [CHR 0x27] @ ''Normal'' @ [CHR 0x27] @ '';''"

text \<open>
  Lines 184-209: the scripted update of the anomalous rows, ended by \<open>outcome\<close>. Every
  exception that can end the call here is caught.
\<close>

definition anomaly_bulk :: "bulk_outcome \<Rightarrow> es_frame \<Rightarrow> 'm world \<Rightarrow> 'm world" where
  "anomaly_bulk outcome anomaly_df0 w =
     (let anomaly_df = anomaly_df0\<lparr>script_col := Some script\<rparr>;
          w1 = w\<lparr>bulk_calls := bulk_calls w @
                   [ScriptedUpdate (es w) (map pred_id (frame_rows anomaly_df))]\<rparr>
      in case outcome of
           Succeeds \<Rightarrow> w1
         | Raises BulkIndexError \<Rightarrow>
             w1\<lparr>logs_to_update_in_elasticsearch :=
                  put_not_awaited (logs_to_update_in_elasticsearch w1) anomaly_df\<rparr>
         | Raises ConnectionTimeout \<Rightarrow>
             w1\<lparr>logs_to_update_in_elasticsearch :=
                  put_not_awaited (logs_to_update_in_elasticsearch w1) anomaly_df\<rparr>
         | Raises TimeoutError \<Rightarrow>
             w1\<lparr>logs_to_update_in_elasticsearch :=
                  put_not_awaited (logs_to_update_in_elasticsearch w1) anomaly_df\<rparr>
         | Raises (TransportError status) \<Rightarrow>
             (if status = NA then setup_es_connection w1 else w1))"

text \<open>
  Lines 211-242: the field update of all rows. \<open>TimeoutError\<close> is not named by the
  clauses here and leaves the coroutine.
\<close>

definition field_bulk ::
  "bulk_outcome \<Rightarrow> es_frame \<Rightarrow> 'm world \<Rightarrow> (es_exn \<times> 'm world) + 'm world" where
  "field_bulk outcome df w =
     (let w1 = w\<lparr>bulk_calls := bulk_calls w @
                   [FieldUpdate (es w)
                      (map (\<lambda>r. (pred_id r, pred_template_id r, pred_template_support r))
                         (frame_rows df))]\<rparr>
      in case outcome of
           Succeeds \<Rightarrow> Inr w1
         | Raises BulkIndexError \<Rightarrow>
             Inr (w1\<lparr>logs_to_update_in_elasticsearch :=
                       put_not_awaited (logs_to_update_in_elasticsearch w1) df\<rparr>)
         | Raises ConnectionTimeout \<Rightarrow>
             Inr (w1\<lparr>logs_to_update_in_elasticsearch :=
                       put_not_awaited (logs_to_update_in_elasticsearch w1) df\<rparr>)
         | Raises TimeoutError \<Rightarrow> Inl (TimeoutError, w1)
         | Raises (TransportError status) \<Rightarrow>
             Inr (if status = NA then setup_es_connection w1 else w1))"

text \<open>
  Lines 170-242: one pass of the loop body for the table \<open>df0\<close> taken from the queue;
  \<open>outcome1\<close> ends the scripted update (if it is made) and \<open>outcome2\<close> the field update.
\<close>

definition update_es_logs_iter ::
  "bulk_outcome \<Rightarrow> bulk_outcome \<Rightarrow> es_frame \<Rightarrow> 'm world \<Rightarrow> (es_exn \<times> 'm world) + 'm world" where
  "update_es_logs_iter outcome1 outcome2 df0 w =
     (let df = df0\<lparr>op_type_col := Some ''update'', index_col := Some ''logs''\<rparr>;
          anomaly_df = df\<lparr>frame_rows := filter (\<lambda>r. drain_prediction r = 1) (frame_rows df)\<rparr>;
          w1 = (if length (frame_rows anomaly_df) = 0 then w
                else anomaly_bulk outcome1 anomaly_df w)
      in field_bulk outcome2 df w1)"

text \<open>Lines 169-170: \<open>await queue.get()\<close>, then the loop body.\<close>

definition update_es_logs_step ::
  "bulk_outcome \<Rightarrow> bulk_outcome \<Rightarrow> 'm world \<Rightarrow> ((es_exn \<times> 'm world) + 'm world) option" where
  "update_es_logs_step outcome1 outcome2 w =
     (case logs_to_update_in_elasticsearch w of
        [] \<Rightarrow> None
      | df # rest \<Rightarrow>
          Some (update_es_logs_iter outcome1 outcome2 df
                  (w\<lparr>logs_to_update_in_elasticsearch := rest\<rparr>)))"

section \<open>Concrete inputs\<close>

text \<open>
  A miner for concrete runs: its state counts the messages seen, all of which fall into
  cluster 1.
\<close>

definition counting_miner :: "nat \<Rightarrow> string \<Rightarrow> miner_result \<times> nat" where
  "counting_miner m msg =
     (\<lparr>change_type = (if m = 0 then ''cluster_created'' else ''none''),
       cluster_id = 1, template_mined = msg, cluster_size = int m + 1\<rparr>, Suc m)"

definition world0 :: "nat world" where
  "world0 =
     \<lparr>incoming_logs_to_train_queue = [], logs_to_update_in_elasticsearch = [],
      published = [], template_miner = 0,
      num_clusters_created_tracking_queue = [], num_templates_changed_tracking_queue = [],
      num_no_templates_change_tracking_queue = [], es = 1, bulk_calls = []\<rparr>"

text \<open>An incoming table with an empty message in the middle, and a table of predictions.\<close>

definition rows1 :: "log_row list" where
  "rows1 = [\<lparr>row_id = ''id1'', masked_log = ''disk failure''\<rparr>,
            \<lparr>row_id = ''id2'', masked_log = []\<rparr>,
            \<lparr>row_id = ''id3'', masked_log = ''ok''\<rparr>]"

definition frame1 :: es_frame where
  "frame1 =
     \<lparr>frame_rows =
        [\<lparr>pred_id = ''id1'', drain_prediction = 1, pred_template_id = 1,
          pred_template_support = 1\<rparr>,
         \<lparr>pred_id = ''id3'', drain_prediction = 0, pred_template_id = 2,
          pred_template_support = 12\<rparr>],
      op_type_col = None, index_col = None, script_col = None\<rparr>"

text \<open>Clock readings for concrete runs: the four readings of the tick that starts at \<open>t\<close>.\<close>

definition ck :: "nat \<Rightarrow> clock" where
  "ck t = \<lparr>now_295 = t + 1, now_298 = t + 2, now_312 = t + 3, now_324 = t + 4\<rparr>"

section \<open>Properties of the retrain signal controller\<close>

subsection \<open>Evaluating \<open>weighted_vol\<close> on concrete windows\<close>

lemmas tick_defs = training_signal_check_tick_def decide_def send_train_signal_def
  close_period_def restart_period_def mark_volatile_def appendleft_def

lemma ck_simps [simp]:
  "now_295 (ck t) = t + 1" "now_298 (ck t) = t + 2"
  "now_312 (ck t) = t + 3" "now_324 (ck t) = t + 4"
  by (simp_all add: ck_def)

lemma weighted_vol_of_unfold:
  "weighted_vol_of q =
     np_true_divide
       (sqrt (np_average
          (map (\<lambda>v. (v - np_average (map real q) (time_weights (length q)))\<^sup>2) (map real q))
          (time_weights (length q))))
       (np_mean (take 10 (map real q)))"
  by (simp add: weighted_vol_of_def weighted_avg_and_std_def Let_def)

lemma time_weights_4: "time_weights (length [a, b, c, d]) = [1, 3/4, 1/2, 1/4]"
  by (simp add: time_weights_def upt_rec)

lemma time_weights_5: "time_weights (length [a, b, c, d, e]) = [1, 4/5, 3/5, 2/5, 1/5]"
  by (simp add: time_weights_def upt_rec)

lemma time_weights_6:
  "time_weights (length [a, b, c, d, e, f]) = [1, 5/6, 2/3, 1/2, 1/3, 1/6]"
  by (simp add: time_weights_def upt_rec)

text \<open>Four equal samples: the weighted mean is the sample, the variance is zero.\<close>

lemma wv_const4:
  assumes "0 < c"
  shows "weighted_vol_of [c, c, c, c] = Fin 0"
proof -
  have avg: "np_average (map real [c, c, c, c]) [1, 3/4, 1/2, 1/4] = real c"
    by (simp add: np_average_def field_simps)
  have mean: "np_mean (take 10 (map real [c, c, c, c])) = real c"
    by (simp add: np_mean_def)
  show ?thesis
    unfolding weighted_vol_of_unfold time_weights_4 avg mean
    using assms by (simp add: np_average_def np_true_divide_def)
qed

lemma wv_41: "weighted_vol_of [41, 20, 20, 20, 20] = Fin (sqrt 98 / (121 / 5))"
proof -
  have avg: "np_average (map real [41, 20, 20, 20, 20]) [1, 4/5, 3/5, 2/5, 1/5] = 27"
    by (simp add: np_average_def)
  have mean: "np_mean (take 10 (map real [41, 20, 20, 20, 20])) = 121 / 5"
    by (simp add: np_mean_def)
  have var: "np_average (map (\<lambda>v. (v - 27)\<^sup>2) (map real [41, 20, 20, 20, 20]))
               [1, 4/5, 3/5, 2/5, 1/5] = 98"
    by (simp add: np_average_def)
  show ?thesis
    unfolding weighted_vol_of_unfold time_weights_5 avg mean var
    by (simp add: np_true_divide_def)
qed

lemma wv_41_40: "weighted_vol_of [41, 40, 40, 40, 40] = Fin (sqrt (2/9) / (201 / 5))"
proof -
  have avg: "np_average (map real [41, 40, 40, 40, 40]) [1, 4/5, 3/5, 2/5, 1/5] = 121 / 3"
    by (simp add: np_average_def)
  have mean: "np_mean (take 10 (map real [41, 40, 40, 40, 40])) = 201 / 5"
    by (simp add: np_mean_def)
  have var: "np_average (map (\<lambda>v. (v - 121 / 3)\<^sup>2) (map real [41, 40, 40, 40, 40]))
               [1, 4/5, 3/5, 2/5, 1/5] = 2 / 9"
    by (simp add: np_average_def power2_eq_square)
  show ?thesis
    unfolding weighted_vol_of_unfold time_weights_5 avg mean var
    by (simp add: np_true_divide_def)
qed

lemma wv_9: "weighted_vol_of [9, 6, 6, 6, 6] = Fin (sqrt 2 / (33 / 5))"
proof -
  have avg: "np_average (map real [9, 6, 6, 6, 6]) [1, 4/5, 3/5, 2/5, 1/5] = 7"
    by (simp add: np_average_def)
  have mean: "np_mean (take 10 (map real [9, 6, 6, 6, 6])) = 33 / 5"
    by (simp add: np_mean_def)
  have var: "np_average (map (\<lambda>v. (v - 7)\<^sup>2) (map real [9, 6, 6, 6, 6]))
               [1, 4/5, 3/5, 2/5, 1/5] = 2"
    by (simp add: np_average_def)
  show ?thesis
    unfolding weighted_vol_of_unfold time_weights_5 avg mean var
    by (simp add: np_true_divide_def)
qed

lemma wv_7: "weighted_vol_of [7, 9, 6, 6, 6, 6] = Fin (sqrt (10/7) / (20 / 3))"
proof -
  have avg: "np_average (map real [7, 9, 6, 6, 6, 6]) [1, 5/6, 2/3, 1/2, 1/3, 1/6] = 7"
    by (simp add: np_average_def)
  have mean: "np_mean (take 10 (map real [7, 9, 6, 6, 6, 6])) = 20 / 3"
    by (simp add: np_mean_def)
  have var: "np_average (map (\<lambda>v. (v - 7)\<^sup>2) (map real [7, 9, 6, 6, 6, 6]))
               [1, 5/6, 2/3, 1/2, 1/3, 1/6] = 10 / 7"
    by (simp add: np_average_def)
  show ?thesis
    unfolding weighted_vol_of_unfold time_weights_6 avg mean var
    by (simp add: np_true_divide_def)
qed

lemma sqrt_98_lower: "9 < sqrt 98"
  by (rule real_less_rsqrt) simp

lemma sqrt_2_lower: "14/10 < sqrt 2"
  by (rule real_less_rsqrt) (simp add: power2_eq_square)

lemma sqrt_10_7_lower: "11/10 < sqrt (10/7)"
  by (rule real_less_rsqrt) (simp add: power2_eq_square)

lemma sqrt_10_7_upper: "sqrt (10/7) < 13/10"
  by (rule real_less_lsqrt) (simp_all add: power2_eq_square)

lemma sqrt_2_9_upper: "sqrt (2/9) < 1/2"
  by (rule real_less_lsqrt) (simp_all add: power2_eq_square)

text \<open>About 0.409, 0.214, 0.179 and 0.012.\<close>

lemma wv_41_high:
  "f_ge (weighted_vol_of [41, 20, 20, 20, 20]) 0.199"
  "\<not> f_le (weighted_vol_of [41, 20, 20, 20, 20]) 0.15"
  "\<not> f_lt (weighted_vol_of [41, 20, 20, 20, 20]) 0.199"
  using sqrt_98_lower by (simp_all add: wv_41 field_simps)

lemma wv_9_high:
  "f_ge (weighted_vol_of [9, 6, 6, 6, 6]) 0.199"
  "\<not> f_le (weighted_vol_of [9, 6, 6, 6, 6]) 0.15"
  "\<not> f_lt (weighted_vol_of [9, 6, 6, 6, 6]) 0.199"
  using sqrt_2_lower by (simp_all add: wv_9 field_simps)

lemma wv_7_between:
  "\<not> f_ge (weighted_vol_of [7, 9, 6, 6, 6, 6]) 0.199"
  "\<not> f_le (weighted_vol_of [7, 9, 6, 6, 6, 6]) 0.15"
  "f_lt (weighted_vol_of [7, 9, 6, 6, 6, 6]) 0.199"
  "f_gt (weighted_vol_of [7, 9, 6, 6, 6, 6]) 0.155"
  using sqrt_10_7_lower sqrt_10_7_upper by (simp_all add: wv_7 field_simps)

lemma wv_41_40_low:
  "f_le (weighted_vol_of [41, 40, 40, 40, 40]) 0.15"
  "\<not> f_ge (weighted_vol_of [41, 40, 40, 40, 40]) 0.199"
  "\<not> f_gt (weighted_vol_of [41, 40, 40, 40, 40]) 0.155"
  using sqrt_2_9_upper by (simp_all add: wv_41_40 field_simps)

subsection \<open>The history of stable periods\<close>

lemma tick_appends:
  "\<exists>new. normal_periods (fst (training_signal_check_tick clk n s)) = normal_periods s @ new"
  by (simp add: tick_defs Let_def)

lemma tick_payload:
  "snd (training_signal_check_tick clk n s) = Some p \<Longrightarrow>
     time_intervals p = normal_periods (fst (training_signal_check_tick clk n s))"
  by (auto simp add: tick_defs Let_def split: if_splits)

lemma run_appends:
  "\<exists>new. normal_periods (fst (training_signal_check_run s ticks)) = normal_periods s @ new"
proof (induction ticks arbitrary: s)
  case Nil
  show ?case by simp
next
  case (Cons t ticks)
  obtain clk n where t: "t = (clk, n)" by (cases t)
  obtain s1 out where s1: "training_signal_check_tick clk n s = (s1, out)"
    by (cases "training_signal_check_tick clk n s")
  from tick_appends [of clk n s] s1 obtain a where a: "normal_periods s1 = normal_periods s @ a"
    by auto
  from Cons.IH [of s1] obtain b where
    b: "normal_periods (fst (training_signal_check_run s1 ticks)) = normal_periods s1 @ b" ..
  show ?case
    using a b by (simp add: t s1 split_beta)
qed

text \<open>
  Claim C2, as stated, fails. The run of four ticks with five clusters each emits a train
  event on the fourth tick, and right after the emission \<open>normal_periods\<close> still holds the
  period that was sent: nothing in the loop ever empties the list.
\<close>

theorem history_not_cleared_after_emission:
  "training_signal_check_run (controller_init 0)
     [(ck 20, 5), (ck 40, 5), (ck 60, 5), (ck 80, 5)]
     = (\<lparr>iteration = 4, num_templates_in_last_train = 5, train_on_next_chance = False,
          stable = True, training_start_ts_ns = 84, very_first_ts_ns = 0,
          normal_periods = [\<lparr>start_ts = 0, end_ts = 83\<rparr>],
          num_total_clusters_tracking_queue = [5, 5, 5, 5]\<rparr>,
        [None, None, None,
         Some \<lparr>model_to_train = ''nulog'',
               time_intervals = [\<lparr>start_ts = 0, end_ts = 83\<rparr>]\<rparr>])"
  by (simp add: tick_defs controller_init_def Let_def wv_const4)

text \<open>
  Claim C2, amended: the history of stable periods only grows by appending, over every
  run of ticks and also across an emission; it is never cleared. After a tick that
  emits a train event the history is exactly the list of intervals sent in that event.
\<close>

theorem history_append_only:
  "(\<exists>new. normal_periods (fst (training_signal_check_run s ticks)) = normal_periods s @ new)
   \<and> (\<forall>p. snd (training_signal_check_tick clk n s) = Some p \<longrightarrow>
          normal_periods (fst (training_signal_check_tick clk n s)) = time_intervals p)"
  using run_appends [of s ticks] tick_payload [of clk n s] by auto

theorem history_append_only_witness:
  "snd (training_signal_check_tick (ck 80) 5
          ((controller_init 0)\<lparr>num_total_clusters_tracking_queue := [5, 5, 5]\<rparr>))
     = Some \<lparr>model_to_train = ''nulog'', time_intervals = [\<lparr>start_ts = 0, end_ts = 83\<rparr>]\<rparr>
   \<and> normal_periods (fst (training_signal_check_tick (ck 80) 5
          ((controller_init 0)\<lparr>num_total_clusters_tracking_queue := [5, 5, 5]\<rparr>)))
     = [\<lparr>start_ts = 0, end_ts = 83\<rparr>]"
proof -
  let ?s = "(controller_init 0)\<lparr>num_total_clusters_tracking_queue := [5, 5, 5]\<rparr>"
  have out: "snd (training_signal_check_tick (ck 80) 5 ?s)
     = Some \<lparr>model_to_train = ''nulog'', time_intervals = [\<lparr>start_ts = 0, end_ts = 83\<rparr>]\<rparr>"
    by (simp add: tick_defs controller_init_def Let_def wv_const4)
  from history_append_only [of ?s "[]" "ck 80" 5] out show ?thesis
    by simp
qed

subsection \<open>Constant cluster counts\<close>

text \<open>
  Claim C7: on a constant stream of a positive cluster count the first three ticks
  publish nothing, and the fourth tick publishes a train event with exactly one period,
  which starts at the controller's start-up reading and ends at the reading taken when
  the event is built (line 312). Moreover no tick that starts with fewer than three
  samples in the window publishes anything, whatever the counts are.
\<close>

theorem constant_stream_fires_on_fourth_tick:
  assumes "0 < c"
  shows "snd (training_signal_check_run (controller_init t0)
                [(k1, c), (k2, c), (k3, c), (k4, c)])
           = [None, None, None,
              Some \<lparr>model_to_train = ''nulog'',
                    time_intervals = [\<lparr>start_ts = int t0, end_ts = int (now_312 k4)\<rparr>]\<rparr>]
       \<and> (length (num_total_clusters_tracking_queue s) < 3 \<longrightarrow>
           snd (training_signal_check_tick clk n s) = None)"
  using assms
  by (simp add: tick_defs controller_init_def Let_def wv_const4)

theorem constant_stream_fires_on_fourth_tick_witness:
  "(0::nat) < 5
   \<and> snd (training_signal_check_run (controller_init 0)
            [(ck 20, 5), (ck 40, 5), (ck 60, 5), (ck 80, 5)])
       = [None, None, None,
          Some \<lparr>model_to_train = ''nulog'',
                time_intervals = [\<lparr>start_ts = 0, end_ts = 83\<rparr>]\<rparr>]
   \<and> snd (training_signal_check_tick (ck 20) 5 (controller_init 0)) = None"
proof -
  have pos: "(0::nat) < 5" by simp
  have few: "length (num_total_clusters_tracking_queue (controller_init 0)) < 3"
    by (simp add: controller_init_def)
  from constant_stream_fires_on_fourth_tick
         [OF pos, of 0 "ck 20" "ck 40" "ck 60" "ck 80" "controller_init 0" "ck 20" 5] few
  show ?thesis by simp
qed

subsection \<open>The escape hatch on cluster growth\<close>

text \<open>
  Claim C3, as stated, fails. A train event fires on the fourth tick at cluster count 20.
  On the fifth tick the count is 41, more than twice 20, and the weighted volatility of
  the window is about 0.41: nothing is published. Line 305 asks for
  \<open>weighted_vol <= 0.15\<close> before it looks at the growth of the count.
\<close>

theorem no_escape_hatch_while_volatile:
  "training_signal_check_run (controller_init 0)
     [(ck 20, 20), (ck 40, 20), (ck 60, 20), (ck 80, 20), (ck 100, 41)]
     = (\<lparr>iteration = 5, num_templates_in_last_train = 20, train_on_next_chance = True,
          stable = True, training_start_ts_ns = 84, very_first_ts_ns = 0,
          normal_periods = [\<lparr>start_ts = 0, end_ts = 83\<rparr>],
          num_total_clusters_tracking_queue = [41, 20, 20, 20, 20]\<rparr>,
        [None, None, None,
         Some \<lparr>model_to_train = ''nulog'',
               time_intervals = [\<lparr>start_ts = 0, end_ts = 83\<rparr>]\<rparr>,
         None])
   \<and> f_ge (weighted_vol_of [41, 20, 20, 20, 20]) 0.199"
  using wv_41_high by (simp add: tick_defs controller_init_def Let_def wv_const4)

text \<open>
  Claim C3, amended: at a tick with at least four samples at which the live count
  exceeds twice the count recorded at the last retrain, a train event is published if
  the weighted volatility is at most 0.15 (whether or not the controller is waiting for a
  retrain opportunity), and nothing is published if it is not.
\<close>

theorem escape_hatch_needs_low_volatility:
  assumes "3 < length (appendleft 50 n (num_total_clusters_tracking_queue s))"
    and "2 * num_templates_in_last_train s < n"
  shows "(f_le (weighted_vol_of (appendleft 50 n (num_total_clusters_tracking_queue s))) 0.15
            \<longrightarrow> (\<exists>p. snd (training_signal_check_tick clk n s) = Some p))
       \<and> (\<not> f_le (weighted_vol_of (appendleft 50 n (num_total_clusters_tracking_queue s))) 0.15
            \<longrightarrow> snd (training_signal_check_tick clk n s) = None)"
  using assms
  by (simp add: training_signal_check_tick_def decide_def send_train_signal_def
      close_period_def restart_period_def mark_volatile_def Let_def)

theorem escape_hatch_needs_low_volatility_witness:
  "\<not> train_on_next_chance
        \<lparr>iteration = 9, num_templates_in_last_train = 20, train_on_next_chance = False,
          stable = True, training_start_ts_ns = 84, very_first_ts_ns = 0,
          normal_periods = [\<lparr>start_ts = 0, end_ts = 83\<rparr>],
          num_total_clusters_tracking_queue = [40, 40, 40, 40]\<rparr>
   \<and> f_le (weighted_vol_of [41, 40, 40, 40, 40]) 0.15
   \<and> (\<exists>p. snd (training_signal_check_tick (ck 200) 41
        \<lparr>iteration = 9, num_templates_in_last_train = 20, train_on_next_chance = False,
          stable = True, training_start_ts_ns = 84, very_first_ts_ns = 0,
          normal_periods = [\<lparr>start_ts = 0, end_ts = 83\<rparr>],
          num_total_clusters_tracking_queue = [40, 40, 40, 40]\<rparr>) = Some p)"
proof -
  let ?s = "\<lparr>iteration = 9, num_templates_in_last_train = 20, train_on_next_chance = False,
          stable = True, training_start_ts_ns = 84, very_first_ts_ns = 0,
          normal_periods = [\<lparr>start_ts = 0, end_ts = 83\<rparr>],
          num_total_clusters_tracking_queue = [40, 40, 40, 40]\<rparr>"
  have len: "3 < length (appendleft 50 41 (num_total_clusters_tracking_queue ?s))"
    by (simp add: appendleft_def)
  have grow: "2 * num_templates_in_last_train ?s < 41"
    by simp
  have win: "appendleft 50 41 (num_total_clusters_tracking_queue ?s) = [41, 40, 40, 40, 40]"
    by (simp add: appendleft_def)
  from escape_hatch_needs_low_volatility [OF len grow, of "ck 200"] wv_41_40_low(1)
  show ?thesis
    unfolding win by simp
qed

subsection \<open>Restarting the period\<close>

text \<open>
  Claim C8, as stated, fails. After the train event of the fourth tick a period is open
  (\<open>stable\<close> is set and the start is 84, not the marker \<open>-1\<close>). The fifth tick is volatile
  (about 0.21) and sets \<open>train_on_next_chance\<close>. On the sixth tick the weighted volatility
  is about 0.18, and lines 290-295 overwrite the start of the open period with the
  current reading 121: the test of line 292 compares the start with the start-up
  reading and does not look at whether a period is open.
\<close>

theorem period_start_overwritten_while_open:
  "training_signal_check_run (controller_init 0)
     [(ck 20, 6), (ck 40, 6), (ck 60, 6), (ck 80, 6), (ck 100, 9)]
     = (\<lparr>iteration = 5, num_templates_in_last_train = 6, train_on_next_chance = True,
          stable = True, training_start_ts_ns = 84, very_first_ts_ns = 0,
          normal_periods = [\<lparr>start_ts = 0, end_ts = 83\<rparr>],
          num_total_clusters_tracking_queue = [9, 6, 6, 6, 6]\<rparr>,
        [None, None, None,
         Some \<lparr>model_to_train = ''nulog'',
               time_intervals = [\<lparr>start_ts = 0, end_ts = 83\<rparr>]\<rparr>,
         None])
   \<and> training_signal_check_tick (ck 120) 7
        \<lparr>iteration = 5, num_templates_in_last_train = 6, train_on_next_chance = True,
          stable = True, training_start_ts_ns = 84, very_first_ts_ns = 0,
          normal_periods = [\<lparr>start_ts = 0, end_ts = 83\<rparr>],
          num_total_clusters_tracking_queue = [9, 6, 6, 6, 6]\<rparr>
     = (\<lparr>iteration = 6, num_templates_in_last_train = 6, train_on_next_chance = True,
          stable = True, training_start_ts_ns = 121, very_first_ts_ns = 0,
          normal_periods = [\<lparr>start_ts = 0, end_ts = 83\<rparr>],
          num_total_clusters_tracking_queue = [7, 9, 6, 6, 6, 6]\<rparr>, None)"
  using wv_9_high wv_7_between
  by (simp add: tick_defs controller_init_def Let_def wv_const4)

text \<open>
  Claim C8, amended: at a tick with at least four samples where the weighted volatility
  is below 0.199 and the controller is waiting for a retrain opportunity, the start of
  the period is set to the current time exactly when the start differs from the reading
  taken at start-up, whether or not a period is open; when the volatility is at most
  0.15 the train event of the same tick then sets the start again, to the reading of
  line 324. While the start still equals the start-up reading and no train event fires,
  the start is left as it is.
\<close>

theorem period_start_gate:
  assumes "3 < length (appendleft 50 n (num_total_clusters_tracking_queue s))"
    and "f_lt (weighted_vol_of (appendleft 50 n (num_total_clusters_tracking_queue s))) 0.199"
    and "train_on_next_chance s"
  shows "training_start_ts_ns (fst (training_signal_check_tick clk n s)) =
           (if f_le (weighted_vol_of (appendleft 50 n (num_total_clusters_tracking_queue s))) 0.15
            then int (now_324 clk)
            else if training_start_ts_ns s \<noteq> very_first_ts_ns s
            then int (now_295 clk)
            else training_start_ts_ns s)"
proof -
  let ?wv = "weighted_vol_of (appendleft 50 n (num_total_clusters_tracking_queue s))"
  have nge: "\<not> f_ge ?wv 0.199"
    using assms(2) by (cases ?wv) simp_all
  have ne: "num_total_clusters_tracking_queue s \<noteq> []"
    using assms(1) by (auto simp add: appendleft_def)
  show ?thesis
    using assms nge ne
    by (simp add: training_signal_check_tick_def decide_def send_train_signal_def
      close_period_def restart_period_def mark_volatile_def Let_def)
qed

theorem period_start_gate_witness:
  "f_lt (weighted_vol_of [7, 9, 6, 6, 6, 6]) 0.199
   \<and> training_start_ts_ns (fst (training_signal_check_tick (ck 120) 7
        \<lparr>iteration = 5, num_templates_in_last_train = 6, train_on_next_chance = True,
          stable = True, training_start_ts_ns = 84, very_first_ts_ns = 0,
          normal_periods = [\<lparr>start_ts = 0, end_ts = 83\<rparr>],
          num_total_clusters_tracking_queue = [9, 6, 6, 6, 6]\<rparr>)) = 121"
proof -
  let ?s = "\<lparr>iteration = 5, num_templates_in_last_train = 6, train_on_next_chance = True,
          stable = True, training_start_ts_ns = 84, very_first_ts_ns = 0,
          normal_periods = [\<lparr>start_ts = 0, end_ts = 83\<rparr>],
          num_total_clusters_tracking_queue = [9, 6, 6, 6, 6]\<rparr>"
  have win: "appendleft 50 7 (num_total_clusters_tracking_queue ?s) = [7, 9, 6, 6, 6, 6]"
    by (simp add: appendleft_def)
  have len: "3 < length (appendleft 50 7 (num_total_clusters_tracking_queue ?s))"
    by (simp add: appendleft_def)
  have low: "f_lt (weighted_vol_of (appendleft 50 7 (num_total_clusters_tracking_queue ?s))) 0.199"
    unfolding win by (rule wv_7_between(3))
  have aw: "train_on_next_chance ?s"
    by simp
  from period_start_gate [OF len low aw, of "ck 120"] wv_7_between(2) wv_7_between(3)
  show ?thesis
    unfolding win by simp
qed

section \<open>Properties of the scoring stage\<close>

subsection \<open>Rows in, predictions out\<close>

lemma infer_rows_ids:
  "map doc_id (fst (infer_rows alm m batch))
     = map row_id (filter (\<lambda>row. masked_log row \<noteq> []) batch)"
  by (induction batch arbitrary: m) (simp_all add: split_beta Let_def)

lemma infer_rows_none:
  "\<forall>row\<in>set batch. masked_log row = [] \<Longrightarrow> infer_rows alm m batch = ([], m)"
  by (induction batch arbitrary: m) simp_all

lemma pred_id_prediction_of: "map (pred_id \<circ> prediction_of r) ds = map doc_id ds"
  by (simp add: prediction_of_def)

lemma compile_a_bol: "re_compile ''a^'' = Compiled (Cat (Lit CHR ''a'') Bol)"
  by (simp add: re_compile_def close_level_def other_special_def)

lemma compile_fail:
  "re_compile ''(fail)''
     = Compiled (Cat (Lit CHR ''f'') (Cat (Lit CHR ''a'') (Cat (Lit CHR ''i'') (Lit CHR ''l''))))"
  by (simp add: re_compile_def close_level_def other_special_def)

text \<open>
  Claim C5: the rows built by the loop of lines 67-81 are, in order, the rows of the
  incoming table with a non-empty message, one each, and rows with an empty message
  leave nothing. When the keyword pattern compiles, a pass of the stage either
  publishes one table with exactly one prediction (id, flag, cluster id, support) for
  each such row, or, when there is no such row, raises \<open>KeyError\<close> with nothing
  published.
\<close>

theorem one_prediction_per_nonempty_row:
  "map doc_id (fst (infer_rows alm (template_miner w) batch))
     = map row_id (filter (\<lambda>row. masked_log row \<noteq> []) batch)
   \<and> (re_compile (effective_pattern fks) = Compiled r \<longrightarrow>
        (case train_and_inference_iter alm fks batch w of
           Inr w' \<Rightarrow>
             (\<exists>payload. published w' = published w @ [(''anomalies'', payload)]
                \<and> payload = map (prediction_of r) (fst (infer_rows alm (template_miner w) batch))
                \<and> map pred_id payload
                     = map row_id (filter (\<lambda>row. masked_log row \<noteq> []) batch))
         | Inl (e, w1) \<Rightarrow>
             e = KeyError \<and> published w1 = published w
               \<and> filter (\<lambda>row. masked_log row \<noteq> []) batch = []))"
proof (intro conjI impI)
  show "map doc_id (fst (infer_rows alm (template_miner w) batch))
     = map row_id (filter (\<lambda>row. masked_log row \<noteq> []) batch)"
    by (rule infer_rows_ids)
next
  assume c: "re_compile (effective_pattern fks) = Compiled r"
  obtain ds m1 where ir: "infer_rows alm (template_miner w) batch = (ds, m1)"
    by (cases "infer_rows alm (template_miner w) batch")
  have ids: "map doc_id ds = map row_id (filter (\<lambda>row. masked_log row \<noteq> []) batch)"
    using infer_rows_ids [of alm "template_miner w" batch] ir by simp
  show "case train_and_inference_iter alm fks batch w of
           Inr w' \<Rightarrow>
             (\<exists>payload. published w' = published w @ [(''anomalies'', payload)]
                \<and> payload = map (prediction_of r) (fst (infer_rows alm (template_miner w) batch))
                \<and> map pred_id payload
                     = map row_id (filter (\<lambda>row. masked_log row \<noteq> []) batch))
         | Inl (e, w1) \<Rightarrow>
             e = KeyError \<and> published w1 = published w
               \<and> filter (\<lambda>row. masked_log row \<noteq> []) batch = []"
  proof (cases "ds = []")
    case True
    then show ?thesis
      using ids by (simp add: train_and_inference_iter_def ir)
  next
    case False
    then show ?thesis
      using ids by (simp add: train_and_inference_iter_def ir c Let_def pred_id_prediction_of)
  qed
qed

theorem one_prediction_per_nonempty_row_witness:
  "re_compile (effective_pattern ''(fail)'')
     = Compiled (Cat (Lit CHR ''f'') (Cat (Lit CHR ''a'') (Cat (Lit CHR ''i'') (Lit CHR ''l''))))
   \<and> (\<exists>w' payload. train_and_inference_iter counting_miner ''(fail)'' rows1 world0 = Inr w'
        \<and> published w' = published world0 @ [(''anomalies'', payload)]
        \<and> map pred_id payload = [''id1'', ''id3''])"
proof -
  let ?r = "Cat (Lit CHR ''f'') (Cat (Lit CHR ''a'') (Cat (Lit CHR ''i'') (Lit CHR ''l'')))"
  have c: "re_compile (effective_pattern ''(fail)'') = Compiled ?r"
    by (simp add: effective_pattern_def compile_fail)
  obtain w' where r: "train_and_inference_iter counting_miner ''(fail)'' rows1 world0 = Inr w'"
    by (simp add: train_and_inference_iter_def rows1_def world0_def counting_miner_def c Let_def)
  have f: "map row_id (filter (\<lambda>row. masked_log row \<noteq> []) rows1) = [''id1'', ''id3'']"
    by (simp add: rows1_def)
  from one_prediction_per_nonempty_row [of counting_miner world0 rows1 "''(fail)''" ?r] c
  obtain payload where p: "published w' = published world0 @ [(''anomalies'', payload)]"
      "map pred_id payload = [''id1'', ''id3'']"
    unfolding r f by auto
  have "\<exists>w' payload. train_and_inference_iter counting_miner ''(fail)'' rows1 world0 = Inr w'
        \<and> published w' = published world0 @ [(''anomalies'', payload)]
        \<and> map pred_id payload = [''id1'', ''id3'']"
    using r p by (intro exI [of _ w'] exI [of _ payload] conjI)
  with c show ?thesis by (rule conjI)
qed

text \<open>
  Claim C10: a table without any non-empty message (the empty table included) makes the
  pass end with \<open>KeyError\<close> at line 85, whatever the keyword pattern is. The state at
  the raise is the state before the pass: no message has been published and the miner
  has not been called.
\<close>

theorem empty_result_raises_key_error:
  assumes "\<forall>row\<in>set batch. masked_log row = []"
  shows "train_and_inference_iter alm fks batch w = Inl (KeyError, w)"
  using assms by (simp add: train_and_inference_iter_def infer_rows_none)

theorem empty_result_raises_key_error_witness:
  "train_and_inference_iter counting_miner ''(fail)''
       [\<lparr>row_id = ''id2'', masked_log = []\<rparr>] world0
     = Inl (KeyError, world0)
   \<and> train_and_inference_iter counting_miner ''(fail)'' [] world0 = Inl (KeyError, world0)"
  using empty_result_raises_key_error
          [of "[\<lparr>row_id = ''id2'', masked_log = []\<rparr>]" counting_miner "''(fail)''" world0]
    empty_result_raises_key_error [of "[]" counting_miner "''(fail)''" world0]
  by simp

subsection \<open>The anomaly flag\<close>

lemma no_match_a_bol: "\<not> re_search (Cat (Lit CHR ''a'') Bol) t"
  by (simp add: re_search_def list_ex_iff)

lemma foldl_add_empty:
  "\<forall>kw\<in>set kws. kw = [] \<Longrightarrow> foldl add_fail_keyword acc kws = acc"
  by (induction kws arbitrary: acc) (simp_all add: add_fail_keyword_def)

text \<open>
  Claim C4: the flag of a published prediction is 1 exactly when the support of the
  matched cluster is below 10 or the pattern is found in the matched template, and 0
  otherwise. When \<open>FAIL_KEYWORDS\<close> holds no keyword (every piece between its commas is
  empty), the pattern in use is \<open>a^\<close>, which is found in no text, and the flag is 1
  exactly when the support is below 10.
\<close>

theorem anomaly_flag_iff:
  "(drain_prediction (prediction_of r d) = 1 \<longleftrightarrow>
      drain_matched_template_support d < 10 \<or> re_search r (matched_template d))
   \<and> (drain_prediction (prediction_of r d) \<noteq> 1 \<longrightarrow> drain_prediction (prediction_of r d) = 0)
   \<and> ((\<forall>kw\<in>set (split_on CHR '','' env). kw = []) \<longrightarrow>
        re_compile (effective_pattern (main_fail_keywords_str env))
          = Compiled (Cat (Lit CHR ''a'') Bol)
        \<and> (\<forall>t. \<not> re_search (Cat (Lit CHR ''a'') Bol) t)
        \<and> (drain_prediction (prediction_of (Cat (Lit CHR ''a'') Bol) d) = 1 \<longleftrightarrow>
             drain_matched_template_support d < 10))"
  by (auto simp add: prediction_of_def predict_row_def no_match_a_bol
      main_fail_keywords_str_def foldl_add_empty effective_pattern_def compile_a_bol)

theorem anomaly_flag_iff_witness:
  "split_on CHR '','' '','' = [[], []]
   \<and> main_fail_keywords_str '','' = []
   \<and> drain_prediction (prediction_of (Cat (Lit CHR ''a'') Bol)
        \<lparr>doc_id = ''id1'', update_type = ''none'', matched_template = ''a^ failure'',
         drain_matched_template_id = 1, drain_matched_template_support = 10\<rparr>) = 0
   \<and> drain_prediction (prediction_of (Cat (Lit CHR ''a'') Bol)
        \<lparr>doc_id = ''id1'', update_type = ''none'', matched_template = ''a^ failure'',
         drain_matched_template_id = 1, drain_matched_template_support = 9\<rparr>) = 1"
proof -
  have h: "\<forall>kw\<in>set (split_on CHR '','' '',''). kw = []"
    by simp
  have e: "main_fail_keywords_str '','' = []"
    by (simp add: main_fail_keywords_str_def add_fail_keyword_def)
  from anomaly_flag_iff [of "Cat (Lit CHR ''a'') Bol"
         "\<lparr>doc_id = ''id1'', update_type = ''none'', matched_template = ''a^ failure'',
           drain_matched_template_id = 1, drain_matched_template_support = 10\<rparr>" "'',''"]
    anomaly_flag_iff [of "Cat (Lit CHR ''a'') Bol"
         "\<lparr>doc_id = ''id1'', update_type = ''none'', matched_template = ''a^ failure'',
           drain_matched_template_id = 1, drain_matched_template_support = 9\<rparr>" "'',''"] h e
  show ?thesis by simp
qed

subsection \<open>Where the predictions go\<close>

text \<open>
  Claim C6, as stated, fails. The stage takes a table of three rows from its queue and
  publishes the two predictions on the subject \<open>anomalies\<close>; the persistence queue, which
  is not even an argument of \<open>train_and_inference\<close>, is as empty after the pass as before.
\<close>

theorem scoring_leaves_persistence_queue_alone:
  "train_and_inference_step counting_miner ''(fail)''
     \<lparr>incoming_logs_to_train_queue = [rows1], logs_to_update_in_elasticsearch = [],
      published = [], template_miner = 0,
      num_clusters_created_tracking_queue = [], num_templates_changed_tracking_queue = [],
      num_no_templates_change_tracking_queue = [], es = 1, bulk_calls = []\<rparr>
   = Some (Inr
     \<lparr>incoming_logs_to_train_queue = [], logs_to_update_in_elasticsearch = [],
      published =
        [(''anomalies'',
          [\<lparr>pred_id = ''id1'', drain_prediction = 1, pred_template_id = 1,
            pred_template_support = 1\<rparr>,
           \<lparr>pred_id = ''id3'', drain_prediction = 1, pred_template_id = 1,
            pred_template_support = 2\<rparr>])],
      template_miner = 2,
      num_clusters_created_tracking_queue = [1], num_templates_changed_tracking_queue = [],
      num_no_templates_change_tracking_queue = [1], es = 1, bulk_calls = []\<rparr>)"
  by (simp add: train_and_inference_step_def train_and_inference_iter_def rows1_def
      counting_miner_def effective_pattern_def compile_fail Let_def track_def appendleft_def
      prediction_of_def predict_row_def)

text \<open>
  Claim C6, amended: a pass of the scoring stage that publishes leaves the persistence
  queue as it is and adds one message on the subject \<open>anomalies\<close>; it is the
  subscription handler for that subject (lines 44-47) that puts each received table,
  without any index column, at the end of the persistence queue, which has no bound,
  so the handler is never suspended.
\<close>

theorem predictions_reach_queue_through_subscription:
  "(train_and_inference_iter alm fks batch w = Inr w' \<longrightarrow>
      logs_to_update_in_elasticsearch w' = logs_to_update_in_elasticsearch w
      \<and> (\<exists>payload. published w' = published w @ [(''anomalies'', payload)]))
   \<and> logs_to_update_in_elasticsearch (anomalies_subscription_handler payload w)
       = logs_to_update_in_elasticsearch w @
           [\<lparr>frame_rows = payload, op_type_col = None, index_col = None, script_col = None\<rparr>]
   \<and> published (anomalies_subscription_handler payload w) = published w"
  by (auto simp add: train_and_inference_iter_def anomalies_subscription_handler_def
      await_put_def Let_def split_beta split: if_splits compiled.splits)

theorem predictions_reach_queue_through_subscription_witness:
  "\<exists>w'. train_and_inference_iter counting_miner ''(fail)'' rows1 world0 = Inr w'
      \<and> logs_to_update_in_elasticsearch w' = []
      \<and> (\<exists>payload. published w' = [(''anomalies'', payload)])"
proof -
  have c: "re_compile (effective_pattern ''(fail)'')
     = Compiled (Cat (Lit CHR ''f'') (Cat (Lit CHR ''a'') (Cat (Lit CHR ''i'') (Lit CHR ''l''))))"
    by (simp add: effective_pattern_def compile_fail)
  obtain w' where r: "train_and_inference_iter counting_miner ''(fail)'' rows1 world0 = Inr w'"
    by (simp add: train_and_inference_iter_def rows1_def world0_def counting_miner_def c Let_def)
  from predictions_reach_queue_through_subscription
         [of counting_miner "''(fail)''" rows1 world0 w'] r
  have "logs_to_update_in_elasticsearch w' = []
      \<and> (\<exists>payload. published w' = [(''anomalies'', payload)])"
    by (simp add: world0_def)
  with r show ?thesis by (intro exI [of _ w'] conjI) simp_all
qed

section \<open>Properties of the persistence stage\<close>

text \<open>
  Claim C9: when the field update ends with a transport error without status, the pass
  returns with the persistence queue as it was after the table was taken from it, and
  with a new client, the successor of the one the failed call used. When the scripted
  update of a table with anomalous rows ends so, the queue is again left alone and the
  field update that follows is made with the new client.
\<close>

theorem transport_error_reconnects_and_drops:
  "(\<exists>w'. update_es_logs_iter outcome1 (Raises (TransportError NA)) df w = Inr w'
        \<and> logs_to_update_in_elasticsearch w' = logs_to_update_in_elasticsearch w
        \<and> (\<exists>c docs. last (bulk_calls w') = FieldUpdate c docs \<and> es w' = Suc c))
   \<and> (filter (\<lambda>r. drain_prediction r = 1) (frame_rows df) \<noteq> [] \<longrightarrow>
        (\<exists>w' ids docs. update_es_logs_iter (Raises (TransportError NA)) Succeeds df w = Inr w'
           \<and> logs_to_update_in_elasticsearch w' = logs_to_update_in_elasticsearch w
           \<and> bulk_calls w' = bulk_calls w @
                [ScriptedUpdate (es w) ids, FieldUpdate (Suc (es w)) docs]
           \<and> es w' = Suc (es w)))"
  by (simp add: update_es_logs_iter_def field_bulk_def anomaly_bulk_def setup_es_connection_def
      put_not_awaited_def Let_def split: bulk_outcome.splits es_exn.splits)

theorem transport_error_reconnects_and_drops_witness:
  "filter (\<lambda>r. drain_prediction r = 1) (frame_rows frame1) \<noteq> []
   \<and> (\<exists>w'. update_es_logs_iter (Raises (TransportError NA)) Succeeds frame1 world0 = Inr w'
        \<and> logs_to_update_in_elasticsearch w' = []
        \<and> bulk_calls w' =
             [ScriptedUpdate 1 [''id1''], FieldUpdate 2 [(''id1'', 1, 1), (''id3'', 2, 12)]]
        \<and> es w' = 2)"
proof -
  have h: "filter (\<lambda>r. drain_prediction r = 1) (frame_rows frame1) \<noteq> []"
    by (simp add: frame1_def)
  from transport_error_reconnects_and_drops [of Succeeds frame1 world0] h
  obtain w' ids docs where
    w': "update_es_logs_iter (Raises (TransportError NA)) Succeeds frame1 world0 = Inr w'"
      "logs_to_update_in_elasticsearch w' = logs_to_update_in_elasticsearch world0"
      "es w' = Suc (es world0)"
    by blast
  have calls: "bulk_calls w' =
      [ScriptedUpdate 1 [''id1''], FieldUpdate 2 [(''id1'', 1, 1), (''id3'', 2, 12)]]"
    using w'(1)
    by (auto simp add: update_es_logs_iter_def field_bulk_def anomaly_bulk_def
        setup_es_connection_def frame1_def world0_def Let_def)
  show ?thesis
    using h w' calls by (simp add: world0_def)
qed

text \<open>
  Claim C1 on the code: the persistence queue holds one table with one anomalous row.
  Whether the scripted update ends with \<open>BulkIndexError\<close> or the field update with
  \<open>ConnectionTimeout\<close>, the pass returns with an empty queue: the \<open>put\<close> of lines 204 and
  237 is never awaited, so neither the table nor its anomalous rows come back.
\<close>

theorem transient_failure_not_requeued:
  "update_es_logs_step (Raises BulkIndexError) Succeeds
     \<lparr>incoming_logs_to_train_queue = [], logs_to_update_in_elasticsearch = [frame1],
      published = [], template_miner = (0::nat),
      num_clusters_created_tracking_queue = [], num_templates_changed_tracking_queue = [],
      num_no_templates_change_tracking_queue = [], es = 1, bulk_calls = []\<rparr>
   = Some (Inr
     \<lparr>incoming_logs_to_train_queue = [], logs_to_update_in_elasticsearch = [],
      published = [], template_miner = 0,
      num_clusters_created_tracking_queue = [], num_templates_changed_tracking_queue = [],
      num_no_templates_change_tracking_queue = [], es = 1,
      bulk_calls =
        [ScriptedUpdate 1 [''id1''], FieldUpdate 1 [(''id1'', 1, 1), (''id3'', 2, 12)]]\<rparr>)
   \<and> update_es_logs_step Succeeds (Raises ConnectionTimeout)
     \<lparr>incoming_logs_to_train_queue = [], logs_to_update_in_elasticsearch = [frame1],
      published = [], template_miner = (0::nat),
      num_clusters_created_tracking_queue = [], num_templates_changed_tracking_queue = [],
      num_no_templates_change_tracking_queue = [], es = 1, bulk_calls = []\<rparr>
   = Some (Inr
     \<lparr>incoming_logs_to_train_queue = [], logs_to_update_in_elasticsearch = [],
      published = [], template_miner = 0,
      num_clusters_created_tracking_queue = [], num_templates_changed_tracking_queue = [],
      num_no_templates_change_tracking_queue = [], es = 1,
      bulk_calls =
        [ScriptedUpdate 1 [''id1''], FieldUpdate 1 [(''id1'', 1, 1), (''id3'', 2, 12)]]\<rparr>)"
  by (simp add: update_es_logs_step_def update_es_logs_iter_def field_bulk_def anomaly_bulk_def
      put_not_awaited_def frame1_def Let_def)

end
